theory Spec2Isabelle
  imports Main
begin

section \<open>Python values and library calls used by \<open>cobcide/window.py\<close>\<close>

text \<open>
  The module is Python 2 code on PySide: a file opened with mode \<open>'r'\<close> yields byte
  strings, so a \<open>string\<close> here is a list of bytes. Every exception the module can
  meet is a value of \<open>py_exception\<close>; a call that may raise returns
  \<open>py_exception + 'a\<close> with \<open>Inl\<close> for the exception.
\<close>

datatype py_exception =
  IOError | OSError | UnicodeDecodeError | ValueError | AttributeError | IndexError | PyException

text \<open>
  \<open>issubclass e cls\<close>: the part of Python 2's exception hierarchy that the handlers of
  the module can tell apart. \<open>PyException\<close> stands for the base class \<open>Exception\<close>;
  \<open>UnicodeDecodeError\<close> derives from \<open>ValueError\<close>; \<open>IOError\<close> and \<open>OSError\<close> are
  separate classes.
\<close>

definition issubclass :: "py_exception \<Rightarrow> py_exception \<Rightarrow> bool" where
  "issubclass e cls = (e = cls \<or> cls = PyException \<or> (e = UnicodeDecodeError \<and> cls = ValueError))"

text \<open>
  \<open>a or b\<close> on two class objects: a class object is true, so the value is \<open>a\<close>.
  This is what the clause \<open>except IOError or OSError\<close> evaluates before it matches.
\<close>

definition py_or :: "py_exception \<Rightarrow> py_exception \<Rightarrow> py_exception" where
  "py_or a b = a"

text \<open>
  \<open>str.upper\<close> and \<open>str.lower\<close> on a byte string, in the C locale: the ASCII
  letters change case and every other byte stays.
\<close>

definition upper_char :: "char \<Rightarrow> char" where
  "upper_char c =
     (if 97 \<le> (of_char c :: nat) \<and> (of_char c :: nat) \<le> 122
      then char_of (of_char c - 32 :: nat) else c)"

definition lower_char :: "char \<Rightarrow> char" where
  "lower_char c =
     (if 65 \<le> (of_char c :: nat) \<and> (of_char c :: nat) \<le> 90
      then char_of (of_char c + 32 :: nat) else c)"

definition upper :: "string \<Rightarrow> string" where
  "upper s = map upper_char s"

text \<open>The same two maps on the codes of the bytes.\<close>

definition upper_code :: "nat \<Rightarrow> nat" where
  "upper_code n = (if 97 \<le> n \<and> n \<le> 122 then n - 32 else n)"

definition lower_code :: "nat \<Rightarrow> nat" where
  "lower_code n = (if 65 \<le> n \<and> n \<le> 90 then n + 32 else n)"

text \<open>\<open>needle in hay\<close> on strings: \<open>needle\<close> occurs as a contiguous run of \<open>hay\<close>.\<close>

fun startswith :: "string \<Rightarrow> string \<Rightarrow> bool" where
  "startswith [] hay = True"
| "startswith (n # ns) [] = False"
| "startswith (n # ns) (h # hs) = (n = h \<and> startswith ns hs)"

fun py_in :: "string \<Rightarrow> string \<Rightarrow> bool" where
  "py_in needle [] = (needle = [])"
| "py_in needle (h # hs) = (startswith needle (h # hs) \<or> py_in needle hs)"

text \<open>\<open>readlines\<close>: the content cut after every newline byte, which stays on its line.\<close>

fun readlines :: "string \<Rightarrow> string list" where
  "readlines [] = []"
| "readlines (c # cs) =
     (if c = CHR 0x0A then [c] # readlines cs
      else (case readlines cs of [] \<Rightarrow> [[c]] | l # ls \<Rightarrow> (c # l) # ls))"

text \<open>
  The text of a list item is a text string (\<open>unicode\<close>), not a byte string: the list
  of its code points. \<open>ascii_text\<close> reads an ASCII literal as such a text.
\<close>

type_synonym unicode = "nat list"

definition ascii_text :: "string \<Rightarrow> unicode" where
  "ascii_text s = map of_char s"

text \<open>
  \<open>s.split(sep)\<close> for a one-character separator, on either kind of string; the result
  is never empty.
\<close>

fun split :: "'a \<Rightarrow> 'a list \<Rightarrow> 'a list list" where
  "split sep [] = [[]]"
| "split sep (c # cs) =
     (if c = sep then [] # split sep cs
      else (case split sep cs of [] \<Rightarrow> [[c]] | x # xs \<Rightarrow> (c # x) # xs))"

text \<open>
  \<open>QFileInfo(path).suffix()\<close>: the characters of the file name (the part of the path
  after its last slash) after the last dot, and the empty string when the name has no dot.
\<close>

definition fileName :: "string \<Rightarrow> string" where
  "fileName path = rev (takeWhile (\<lambda>c. c \<noteq> CHR ''/'') (rev path))"

definition suffix :: "string \<Rightarrow> string" where
  "suffix path =
     (let name = fileName path
      in if CHR ''.'' \<in> set name then rev (takeWhile (\<lambda>c. c \<noteq> CHR ''.'') (rev name)) else [])"

section \<open>The objects the main window works with\<close>

datatype FileType = Text | Program | Subprogram

type_synonym ref = nat

record cursor =
  cursor_line :: int
  cursor_column :: int

datatype errors_manager = ErrorsManager ref

datatype layout_slot = Update_navigation_panel

text \<open>
  An editor tab: \<open>is_CobolEditor\<close> is \<open>isinstance(tab, CobolEditor)\<close>, \<open>textCursor\<close> the
  cursor of its \<open>codeEdit\<close>.
\<close>

record editor =
  is_CobolEditor :: bool
  fileType :: FileType
  textCursor :: cursor
  errors_manager :: "errors_manager option"
  documentLayoutChanged :: "layout_slot list"

text \<open>What the window reads from its \<open>TabManager\<close>; its code is not part of the module.\<close>

record tab_manager =
  has_open_tabs :: bool
  active_tab :: "ref option"
  active_tab_type :: FileType
  active_tab_filename :: string
  active_tab_file_dir :: string

text \<open>
  The operating system and the libraries, as the module calls them:
  \<open>read_file\<close> is \<open>open(filename, 'r')\<close> followed by reading the whole file,
  \<open>chardet_detect\<close> is \<open>chardet.detect(...)['encoding']\<close> (\<open>None\<close> for Python's
  \<open>None\<close>), \<open>filetype_truthy\<close> is the truth value of a \<open>FileType\<close> constant (the
  constants are declared outside the module), \<open>open_tab\<close> is the tab manager's method: it
  raises, or returns the reference of the new tab, the new tab and the manager's new state.
  \<open>builtin_int\<close> is the interpreter's \<open>int\<close> on a text string: the integer it reads,
  or \<open>None\<close> where it raises \<open>ValueError\<close>. Which blanks and which digits it accepts
  is the interpreter's matter (its Unicode tables, its version), so it is taken as it is.
\<close>

record env =
  path_exists :: "string \<Rightarrow> bool"
  normpath :: "string \<Rightarrow> string"
  read_file :: "string \<Rightarrow> py_exception + string"
  chardet_detect :: "string \<Rightarrow> py_exception + string option"
  getfilesystemencoding :: "string option"
  filetype_truthy :: "FileType \<Rightarrow> bool"
  open_tab :: "tab_manager \<Rightarrow> string \<Rightarrow> FileType \<Rightarrow> string option
                 \<Rightarrow> py_exception + (ref \<times> editor \<times> tab_manager)"
  cursorForPosition :: "editor \<Rightarrow> int \<Rightarrow> int \<Rightarrow> cursor"
  builtin_int :: "unicode \<Rightarrow> int option"

text \<open>A runner (\<open>cobol.Runner\<close>) and the slots connected to its three notifications.\<close>

datatype bool_slot = ActionRun_setEnabled

datatype str_slot = PlainTextEditOutput_appendPlainText | On_run_error

record runner =
  runner_filename :: string
  autoDelete :: bool
  finished :: "bool_slot list"
  lineAvailable :: "str_slot list"
  error :: "str_slot list"

text \<open>
  The state of the main window: the tab manager, the editors by reference, the thread
  pool (its limit and the runners handed to \<open>start\<close>, in order), and the widgets the
  handlers below write. \<open>message_boxes\<close> lists the title and text of every
  \<open>QMessageBox.critical\<close> shown so far.
\<close>

record main_window =
  tab_mgr :: tab_manager
  heap :: "ref \<Rightarrow> editor option"
  threadPool_maxThreadCount :: nat
  threadPool_started :: "runner list"
  stackedWidget_currentIndex :: nat
  dockWidgetNavPanel_visible :: bool
  dockWidgetLogs_visible :: bool
  mnuActiveEditor_enabled :: bool
  actionSave_as_enabled :: bool
  actionSave_enabled :: bool
  actionCompile_enabled :: bool
  actionRun_enabled :: bool
  actionProgram_enabled :: bool
  actionProgram_checked :: bool
  actionSubprogram_enabled :: bool
  actionSubprogram_checked :: bool
  tabWidgetLogs_currentIndex :: nat
  plainTextEditOutput :: "string list"
  last_used_path :: string
  homePage_current_file :: "string option"
  message_boxes :: "(string \<times> string) list"

definition PAGE_HOME :: nat where
  "PAGE_HOME = 0"

definition PAGE_EDITOR :: nat where
  "PAGE_EDITOR = 1"

section \<open>The main window's methods\<close>

subsection \<open>\<open>detect_encoding\<close> and \<open>detect_file_type\<close>\<close>

text \<open>\<open>not encoding\<close>: true for \<open>None\<close> and for the empty string.\<close>

definition py_not :: "string option \<Rightarrow> bool" where
  "py_not encoding = (case encoding of None \<Rightarrow> True | Some s \<Rightarrow> s = [])"

text \<open>
  The body of the \<open>try\<close> of \<open>detect_encoding\<close>: open and read the file, ask chardet,
  and raise \<open>Exception\<close> when chardet gave no name.
\<close>

definition detect_encoding_try :: "env \<Rightarrow> string \<Rightarrow> py_exception + string option" where
  "detect_encoding_try e filename =
     (case read_file e filename of
        Inl exc \<Rightarrow> Inl exc
      | Inr content \<Rightarrow>
          (case chardet_detect e content of
             Inl exc \<Rightarrow> Inl exc
           | Inr encoding \<Rightarrow> if py_not encoding then Inl PyException else Inr encoding))"

text \<open>The bare \<open>except:\<close> takes every exception and falls back to the filesystem encoding.\<close>

definition detect_encoding :: "env \<Rightarrow> string \<Rightarrow> py_exception + string option" where
  "detect_encoding e filename =
     (case detect_encoding_try e filename of
        Inl exc \<Rightarrow> Inr (getfilesystemencoding e)
      | Inr encoding \<Rightarrow> Inr encoding)"

text \<open>
  The loop of \<open>detect_file_type\<close> over the lines, with the variable \<open>type\<close> as its
  first argument: the first line whose upper-case form holds the marker sets it to
  \<open>Subprogram\<close> and leaves the loop.
\<close>

definition MARKER :: string where
  "MARKER = ''PROCEDURE DIVISION USING''"

fun scan_lines :: "FileType \<Rightarrow> string list \<Rightarrow> FileType" where
  "scan_lines type [] = type"
| "scan_lines type (l # ls) = (if py_in MARKER (upper l) then Subprogram else scan_lines type ls)"

text \<open>
  \<open>detect_file_type\<close> returns its result together with the paths it opened. The file is
  opened only for the suffix \<open>cbl\<close>; there \<open>type\<close> is \<open>Program\<close> from before the
  \<open>open\<close>, so that is the result when the handler takes the exception. The handler is
  \<open>except IOError or OSError\<close>; any other exception leaves the method.
\<close>

definition detect_file_type :: "env \<Rightarrow> string \<Rightarrow> (py_exception + FileType) \<times> string list" where
  "detect_file_type e filename =
     (let ext = suffix filename
      in if ext = ''cbl'' then
           (case read_file e filename of
              Inr content \<Rightarrow> (Inr (scan_lines Program (readlines content)), [filename])
            | Inl exc \<Rightarrow>
                (if issubclass exc (py_or IOError OSError) then (Inr Program, [filename])
                 else (Inl exc, [filename])))
         else (Inr Text, []))"

subsection \<open>\<open>__update_toolbar\<close>\<close>

definition active_editor :: "main_window \<Rightarrow> editor option" where
  "active_editor w = (case active_tab (tab_mgr w) of None \<Rightarrow> None | Some r \<Rightarrow> heap w r)"

text \<open>\<open>isinstance(self.__tab_manager.active_tab, CobolEditor)\<close>; false for \<open>None\<close>.\<close>

definition active_tab_isinstance_CobolEditor :: "main_window \<Rightarrow> bool" where
  "active_tab_isinstance_CobolEditor w =
     (case active_editor w of None \<Rightarrow> False | Some ed \<Rightarrow> is_CobolEditor ed)"

definition update_toolbar :: "main_window \<Rightarrow> main_window" where
  "update_toolbar w =
     (if \<not> has_open_tabs (tab_mgr w) then
        w\<lparr>actionSave_as_enabled := False, actionSave_enabled := False,
          actionCompile_enabled := False, actionRun_enabled := False,
          actionProgram_enabled := False, actionProgram_checked := False,
          actionSubprogram_enabled := False, actionSubprogram_checked := False\<rparr>
      else
        (let w1 = w\<lparr>actionSave_as_enabled := True, actionSave_enabled := True\<rparr>
         in if active_tab_isinstance_CobolEditor w1 then
              (let w2 = w1\<lparr>actionCompile_enabled := True, actionRun_enabled := True,
                           actionProgram_enabled := True, actionSubprogram_enabled := True\<rparr>
               in if active_tab_type (tab_mgr w2) = Program then
                    w2\<lparr>actionProgram_checked := True, actionSubprogram_checked := False\<rparr>
                  else if active_tab_type (tab_mgr w2) = Subprogram then
                    w2\<lparr>actionProgram_checked := False, actionSubprogram_checked := True,
                       actionRun_enabled := False\<rparr>
                  else w2)
            else
              w1\<lparr>actionCompile_enabled := False, actionRun_enabled := False,
                 actionProgram_enabled := False, actionSubprogram_enabled := False,
                 actionProgram_checked := False, actionSubprogram_checked := False\<rparr>))"

subsection \<open>\<open>__init__\<close>\<close>

text \<open>
  The constructor, on the window as \<open>setupUi\<close> built it and with the tab manager it
  creates: the pool is limited to one thread, the editor menu is disabled, the toolbar
  is refreshed, and the home page is shown with both docks hidden.
\<close>

definition MainWindow_init :: "main_window \<Rightarrow> tab_manager \<Rightarrow> main_window" where
  "MainWindow_init ui tm =
     (let w1 = ui\<lparr>threadPool_maxThreadCount := 1, threadPool_started := []\<rparr>;
          w2 = w1\<lparr>mnuActiveEditor_enabled := False\<rparr>;
          w3 = w2\<lparr>tab_mgr := tm\<rparr>;
          w4 = update_toolbar w3
      in w4\<lparr>stackedWidget_currentIndex := PAGE_HOME,
            dockWidgetNavPanel_visible := False, dockWidgetLogs_visible := False\<rparr>)"

subsection \<open>\<open>_open_file\<close>\<close>

text \<open>The text of the message box, as the adjacent string literals of the source join.\<close>

definition bad_encoding_text :: string where
  "bad_encoding_text =
     ''Failed to open %s, bad encoding.'' @ [CHR 0x0A, CHR 0x0A] @
     ''Chardet could not '' @
     ''detect a usable encoding, please encode your file with'' @
     ''a standard encoding (utf-8 for example)''"

text \<open>
  The body of the \<open>try\<close> of \<open>_open_file\<close>, on the normalised path: the exception that
  leaves it, if any, and the window at that point.
\<close>

definition open_file_try ::
  "env \<Rightarrow> main_window \<Rightarrow> string \<Rightarrow> FileType option \<Rightarrow> py_exception option \<times> main_window" where
  "open_file_try e w filename filetype =
     (case (case filetype of
              None \<Rightarrow> fst (detect_file_type e filename)
            | Some t \<Rightarrow> if \<not> filetype_truthy e t then fst (detect_file_type e filename) else Inr t) of
        Inl exc \<Rightarrow> (Some exc, w)
      | Inr ft \<Rightarrow>
          (case detect_encoding e filename of
             Inl exc \<Rightarrow> (Some exc, w)
           | Inr encoding \<Rightarrow>
               (case open_tab e (tab_mgr w) filename ft encoding of
                  Inl exc \<Rightarrow> (Some exc, w)
                | Inr (r, tab, tm) \<Rightarrow>
                    (let w1 = w\<lparr>tab_mgr := tm, heap := (heap w)(r \<mapsto> tab)\<rparr>;
                         w2 = w1\<lparr>last_used_path := active_tab_file_dir (tab_mgr w1)\<rparr>;
                         w3 = (if is_CobolEditor tab then
                                 w2\<lparr>heap := (heap w2)(r \<mapsto>
                                      tab\<lparr>errors_manager := Some (ErrorsManager r),
                                          documentLayoutChanged :=
                                            documentLayoutChanged tab @ [Update_navigation_panel]\<rparr>)\<rparr>
                               else w2);
                         w4 = update_toolbar w3
                     in (None, w4\<lparr>homePage_current_file := Some filename\<rparr>)))))"

text \<open>
  \<open>_open_file\<close>: nothing happens for an empty or missing path; otherwise the editor
  page is selected, the body runs, and a \<open>UnicodeDecodeError\<close> ends in the message box.
\<close>

definition open_file ::
  "env \<Rightarrow> main_window \<Rightarrow> string \<Rightarrow> FileType option \<Rightarrow> py_exception option \<times> main_window" where
  "open_file e w filename filetype =
     (if filename \<noteq> [] \<and> path_exists e filename then
        (let filename' = normpath e filename;
             w1 = w\<lparr>stackedWidget_currentIndex := PAGE_EDITOR\<rparr>
         in case open_file_try e w1 filename' filetype of
              (None, w2) \<Rightarrow> (None, w2)
            | (Some exc, w2) \<Rightarrow>
                (if issubclass exc UnicodeDecodeError then
                   (None, w2\<lparr>message_boxes :=
                              message_boxes w2 @ [(''Bad encoding'', bad_encoding_text)]\<rparr>)
                 else (Some exc, w2)))
      else (None, w))"

subsection \<open>\<open>on_actionRun_triggered\<close> and the runner's notifications\<close>

definition on_actionRun_triggered :: "main_window \<Rightarrow> main_window" where
  "on_actionRun_triggered w =
     (let w1 = w\<lparr>tabWidgetLogs_currentIndex := 1\<rparr>;
          w2 = w1\<lparr>plainTextEditOutput := []\<rparr>;
          filename = active_tab_filename (tab_mgr w2);
          r0 = \<lparr>runner_filename = filename, autoDelete = True, finished = [],
                lineAvailable = [], error = []\<rparr>;
          r1 = r0\<lparr>finished := finished r0 @ [ActionRun_setEnabled]\<rparr>;
          r2 = r1\<lparr>lineAvailable := lineAvailable r1 @ [PlainTextEditOutput_appendPlainText]\<rparr>;
          r3 = r2\<lparr>error := error r2 @ [On_run_error]\<rparr>
      in w2\<lparr>threadPool_started := threadPool_started w2 @ [r3]\<rparr>)"

text \<open>\<open>__on_run_error\<close>: the message goes to the output and into a message box.\<close>

definition on_run_error :: "string \<Rightarrow> main_window \<Rightarrow> main_window" where
  "on_run_error msg w =
     (let w1 = w\<lparr>plainTextEditOutput := plainTextEditOutput w @ [msg]\<rparr>
      in w1\<lparr>message_boxes := message_boxes w1 @
           [(''Error executing program'',
             ''An error occured while running a cobol program:'' @ [CHR 0x0A, CHR 0x0A] @ msg)]\<rparr>)"

text \<open>A notification calls the slots connected to it, in the order of connection.\<close>

fun call_bool_slot :: "bool_slot \<Rightarrow> bool \<Rightarrow> main_window \<Rightarrow> main_window" where
  "call_bool_slot ActionRun_setEnabled b w = w\<lparr>actionRun_enabled := b\<rparr>"

fun call_str_slot :: "str_slot \<Rightarrow> string \<Rightarrow> main_window \<Rightarrow> main_window" where
  "call_str_slot PlainTextEditOutput_appendPlainText s w =
     w\<lparr>plainTextEditOutput := plainTextEditOutput w @ [s]\<rparr>"
| "call_str_slot On_run_error s w = on_run_error s w"

definition emit_finished :: "runner \<Rightarrow> bool \<Rightarrow> main_window \<Rightarrow> main_window" where
  "emit_finished r b w = foldl (\<lambda>w' s. call_bool_slot s b w') w (finished r)"

definition emit_lineAvailable :: "runner \<Rightarrow> string \<Rightarrow> main_window \<Rightarrow> main_window" where
  "emit_lineAvailable r s w = foldl (\<lambda>w' sl. call_str_slot sl s w') w (lineAvailable r)"

definition emit_error :: "runner \<Rightarrow> string \<Rightarrow> main_window \<Rightarrow> main_window" where
  "emit_error r s w = foldl (\<lambda>w' sl. call_str_slot sl s w') w (error r)"

subsection \<open>\<open>__on_error_double_clicked\<close>\<close>

text \<open>
  The body of the \<open>try\<close>, on the text of the item: \<open>int\<close> of the first field raises
  \<open>ValueError\<close>; reading \<open>codeEdit\<close> from a missing active tab raises
  \<open>AttributeError\<close>; otherwise the active editor gets the cursor that
  \<open>cursorForPosition\<close> returns for that line and column 1.
\<close>

text \<open>The code point of the colon.\<close>

definition COLON :: nat where
  "COLON = of_char (CHR '':'')"

definition on_error_double_clicked_try ::
  "env \<Rightarrow> main_window \<Rightarrow> unicode \<Rightarrow> py_exception + main_window" where
  "on_error_double_clicked_try e w text =
     (case split COLON text of
        [] \<Rightarrow> Inl IndexError
      | field # _ \<Rightarrow>
          (case builtin_int e field of
             None \<Rightarrow> Inl ValueError
           | Some line \<Rightarrow>
               (case active_tab (tab_mgr w) of
                  None \<Rightarrow> Inl AttributeError
                | Some r \<Rightarrow>
                    (case heap w r of
                       None \<Rightarrow> Inl AttributeError
                     | Some ed \<Rightarrow>
                         (let c = cursorForPosition e ed line 1
                          in Inr (w\<lparr>heap := (heap w)(r \<mapsto> ed\<lparr>textCursor := c\<rparr>)\<rparr>))))))"

definition on_error_double_clicked ::
  "env \<Rightarrow> main_window \<Rightarrow> unicode \<Rightarrow> py_exception option \<times> main_window" where
  "on_error_double_clicked e w text =
     (case on_error_double_clicked_try e w text of
        Inr w' \<Rightarrow> (None, w')
      | Inl exc \<Rightarrow> if issubclass exc ValueError then (None, w) else (Some exc, w))"

section \<open>What the specification says, in its own words\<close>

text \<open>
  Two strings are equal when compared case-insensitively if they agree after
  lower-casing; a line contains a marker case-insensitively if some contiguous part of
  the line equals the marker in that sense.
\<close>

definition equal_ignoring_case :: "string \<Rightarrow> string \<Rightarrow> bool" where
  "equal_ignoring_case a b = (map lower_char a = map lower_char b)"

definition contains_ignoring_case :: "string \<Rightarrow> string \<Rightarrow> bool" where
  "contains_ignoring_case marker line =
     (\<exists>pre mid post. line = pre @ mid @ post \<and> equal_ignoring_case mid marker)"

section \<open>A small installation to run the methods on\<close>

text \<open>
  Three COBOL sources, a text file and a file whose suffix is in upper case, all in one
  directory. \<open>sub.cbl\<close> has the marker in mixed case on its second line; \<open>latin.cbl\<close>
  is the file the tab manager cannot decode; \<open>locked.cbl\<close> cannot be read.
\<close>

definition sub_cbl :: string where
  "sub_cbl =
     ''       IDENTIFICATION DIVISION.'' @ [CHR 0x0A] @
     ''       Procedure Division Using arg.'' @ [CHR 0x0A]"

definition main_cbl :: string where
  "main_cbl =
     ''       IDENTIFICATION DIVISION.'' @ [CHR 0x0A] @
     ''       PROCEDURE DIVISION.'' @ [CHR 0x0A]"

definition example_files :: "string \<Rightarrow> py_exception + string" where
  "example_files path =
     (if path = ''/home/u/sub.cbl'' then Inr sub_cbl
      else if path = ''/home/u/main.cbl'' then Inr main_cbl
      else if path = ''/home/u/latin.cbl'' then Inr main_cbl
      else if path = ''/home/u/SUB.CBL'' then Inr sub_cbl
      else if path = ''/home/u/notes.txt'' then Inr ''remember the milk''
      else Inl IOError)"

definition example_chardet :: "string \<Rightarrow> py_exception + string option" where
  "example_chardet content = (if content = [] then Inr None else Inr (Some ''ascii''))"

definition example_open_tab ::
  "tab_manager \<Rightarrow> string \<Rightarrow> FileType \<Rightarrow> string option
     \<Rightarrow> py_exception + (ref \<times> editor \<times> tab_manager)" where
  "example_open_tab tm filename ft encoding =
     (if filename = ''/home/u/latin.cbl'' then Inl UnicodeDecodeError
      else Inr (0,
             \<lparr>is_CobolEditor = (ft \<noteq> Text), fileType = ft,
              textCursor = \<lparr>cursor_line = 1, cursor_column = 0\<rparr>,
              errors_manager = None, documentLayoutChanged = []\<rparr>,
             \<lparr>has_open_tabs = True, active_tab = Some 0, active_tab_type = ft,
              active_tab_filename = filename, active_tab_file_dir = ''/home/u''\<rparr>))"

text \<open>
  The interpreter of the installation, as far as the examples go: it reads 12 from the
  digits \<open>12\<close>, also behind a no-break space (U+00A0) and in Arabic-Indic digits
  (U+0661, U+0662), and raises \<open>ValueError\<close> on every other text.
\<close>

definition example_int :: "unicode \<Rightarrow> int option" where
  "example_int s =
     (if s = ascii_text ''12'' then Some 12
      else if s = [0xA0] @ ascii_text ''12'' then Some 12
      else if s = [0x661, 0x662] then Some 12
      else None)"

definition example_env :: env where
  "example_env =
     \<lparr>path_exists = (\<lambda>p. p \<in> set [''/home/u/sub.cbl'', ''/home/u/main.cbl'',
                         ''/home/u/latin.cbl'', ''/home/u/SUB.CBL'', ''/home/u/notes.txt'',
                         ''/home/u/locked.cbl'']),
      normpath = (\<lambda>p. p),
      read_file = example_files,
      chardet_detect = example_chardet,
      getfilesystemencoding = Some ''UTF-8'',
      filetype_truthy = (\<lambda>t. True),
      open_tab = example_open_tab,
      cursorForPosition = (\<lambda>ed l c. \<lparr>cursor_line = l, cursor_column = c\<rparr>),
      builtin_int = example_int\<rparr>"

text \<open>The window as \<open>setupUi\<close> leaves it, a new tab manager, and the window after \<open>__init__\<close>.\<close>

definition no_tabs :: tab_manager where
  "no_tabs =
     \<lparr>has_open_tabs = False, active_tab = None, active_tab_type = Text,
      active_tab_filename = [], active_tab_file_dir = []\<rparr>"

definition ui_setup :: main_window where
  "ui_setup =
     \<lparr>tab_mgr = no_tabs, heap = (\<lambda>r. None),
      threadPool_maxThreadCount = 0, threadPool_started = [],
      stackedWidget_currentIndex = 0,
      dockWidgetNavPanel_visible = True, dockWidgetLogs_visible = True,
      mnuActiveEditor_enabled = True,
      actionSave_as_enabled = True, actionSave_enabled = True,
      actionCompile_enabled = True, actionRun_enabled = True,
      actionProgram_enabled = True, actionProgram_checked = False,
      actionSubprogram_enabled = True, actionSubprogram_checked = False,
      tabWidgetLogs_currentIndex = 0, plainTextEditOutput = [],
      last_used_path = [], homePage_current_file = None, message_boxes = []\<rparr>"

definition home_window :: main_window where
  "home_window = MainWindow_init ui_setup no_tabs"

text \<open>The window after \<open>main.cbl\<close> was opened from the home page.\<close>

definition editing_window :: main_window where
  "editing_window = snd (open_file example_env home_window ''/home/u/main.cbl'' None)"

text \<open>The windows after \<open>notes.txt\<close> and after \<open>sub.cbl\<close> were opened instead.\<close>

definition text_window :: main_window where
  "text_window = snd (open_file example_env home_window ''/home/u/notes.txt'' None)"

definition subprogram_window :: main_window where
  "subprogram_window = snd (open_file example_env home_window ''/home/u/sub.cbl'' None)"

text \<open>The window after the attempt to open \<open>latin.cbl\<close> from the home page.\<close>

definition failed_open_window :: main_window where
  "failed_open_window = snd (open_file example_env home_window ''/home/u/latin.cbl'' None)"

section \<open>Facts about the string functions\<close>

text \<open>
  Upper-casing and lower-casing identify the same pairs of bytes, so a comparison after
  \<open>upper\<close> is the case-insensitive comparison.
\<close>

lemma of_char_upper: "(of_char (upper_char c) :: nat) = upper_code (of_char c)"
proof (cases "97 \<le> (of_char c :: nat) \<and> (of_char c :: nat) \<le> 122")
  case True
  then have "(of_char c - 32 :: nat) < 256" by linarith
  then have "(of_char c - 32 :: nat) mod 256 = of_char c - 32" by (rule mod_less)
  with True show ?thesis by (simp add: upper_char_def upper_code_def)
next
  case False
  then show ?thesis unfolding upper_char_def upper_code_def by auto
qed

lemma of_char_lower: "(of_char (lower_char c) :: nat) = lower_code (of_char c)"
proof (cases "65 \<le> (of_char c :: nat) \<and> (of_char c :: nat) \<le> 90")
  case True
  then have "(of_char c + 32 :: nat) < 256" by linarith
  then have "(of_char c + 32 :: nat) mod 256 = of_char c + 32" by (rule mod_less)
  with True show ?thesis by (simp add: lower_char_def lower_code_def)
next
  case False
  then show ?thesis unfolding lower_char_def lower_code_def by auto
qed

lemma code_case_eq: "upper_code n = upper_code m \<longleftrightarrow> lower_code n = lower_code m"
  unfolding upper_code_def lower_code_def by (auto split: if_splits)

lemma upper_lower_eq: "upper_char c = upper_char d \<longleftrightarrow> lower_char c = lower_char d"
proof -
  have "upper_char c = upper_char d \<longleftrightarrow> (of_char (upper_char c) :: nat) = of_char (upper_char d)"
    by simp
  also have "\<dots> \<longleftrightarrow> (of_char (lower_char c) :: nat) = of_char (lower_char d)"
    unfolding of_char_upper of_char_lower by (rule code_case_eq)
  also have "\<dots> \<longleftrightarrow> lower_char c = lower_char d"
    by simp
  finally show ?thesis .
qed

lemma map_upper_lower_eq:
  "map upper_char xs = map upper_char ys \<longleftrightarrow> map lower_char xs = map lower_char ys"
proof (induction xs arbitrary: ys)
  case Nil
  then show ?case by simp
next
  case (Cons x xs)
  then show ?case by (cases ys) (simp_all add: upper_lower_eq)
qed

lemma startswith_iff: "startswith needle hay \<longleftrightarrow> (\<exists>post. hay = needle @ post)"
  by (induction needle hay rule: startswith.induct) auto

lemma py_in_iff: "py_in needle hay \<longleftrightarrow> (\<exists>pre post. hay = pre @ needle @ post)"
proof (induction hay)
  case Nil
  then show ?case by auto
next
  case (Cons h hs)
  show ?case
  proof
    assume "py_in needle (h # hs)"
    then consider "startswith needle (h # hs)" | "py_in needle hs" by auto
    then show "\<exists>pre post. h # hs = pre @ needle @ post"
    proof cases
      case 1
      then obtain post where "h # hs = needle @ post" by (auto simp: startswith_iff)
      then have "h # hs = [] @ needle @ post" by simp
      then show ?thesis by blast
    next
      case 2
      with Cons obtain pre post where "hs = pre @ needle @ post" by auto
      then have "h # hs = (h # pre) @ needle @ post" by simp
      then show ?thesis by blast
    qed
  next
    assume "\<exists>pre post. h # hs = pre @ needle @ post"
    then obtain pre post where eq: "h # hs = pre @ needle @ post" by blast
    show "py_in needle (h # hs)"
    proof (cases pre)
      case Nil
      with eq have "startswith needle (h # hs)" by (auto simp: startswith_iff)
      then show ?thesis by simp
    next
      case (Cons p ps)
      with eq have "hs = ps @ needle @ post" by simp
      with Cons.IH have "py_in needle hs" by blast
      then show ?thesis by simp
    qed
  qed
qed

lemma map_eq_appendD:
  assumes "map f xs = ys @ zs"
  shows "\<exists>us vs. xs = us @ vs \<and> map f us = ys \<and> map f vs = zs"
proof -
  let ?n = "length ys"
  have "map f (take ?n xs) = take ?n (map f xs)" by (simp add: take_map)
  also have "\<dots> = ys" using assms by simp
  finally have a: "map f (take ?n xs) = ys" .
  have "map f (drop ?n xs) = drop ?n (map f xs)" by (simp add: drop_map)
  also have "\<dots> = zs" using assms by simp
  finally have b: "map f (drop ?n xs) = zs" .
  have "xs = take ?n xs @ drop ?n xs" by simp
  with a b show ?thesis by blast
qed

lemma MARKER_upper: "MARKER = map upper_char ''procedure division using''"
  unfolding MARKER_def by code_simp

lemma py_in_MARKER:
  "py_in MARKER (upper l) \<longleftrightarrow> contains_ignoring_case ''procedure division using'' l"
proof -
  have "py_in MARKER (upper l) \<longleftrightarrow> (\<exists>pre post. map upper_char l = pre @ MARKER @ post)"
    by (simp add: py_in_iff upper_def)
  also have "\<dots> \<longleftrightarrow> (\<exists>pre mid post. l = pre @ mid @ post \<and> map upper_char mid = MARKER)"
  proof
    assume "\<exists>pre post. map upper_char l = pre @ MARKER @ post"
    then obtain pre post where "map upper_char l = pre @ MARKER @ post" by blast
    then obtain us vs where l: "l = us @ vs" and "map upper_char vs = MARKER @ post"
      using map_eq_appendD by blast
    then obtain mid ws where "vs = mid @ ws" and "map upper_char mid = MARKER"
      using map_eq_appendD by blast
    with l show "\<exists>pre mid post. l = pre @ mid @ post \<and> map upper_char mid = MARKER"
      by blast
  next
    assume "\<exists>pre mid post. l = pre @ mid @ post \<and> map upper_char mid = MARKER"
    then obtain pre mid post where "l = pre @ mid @ post" and "map upper_char mid = MARKER"
      by blast
    then have "map upper_char l = map upper_char pre @ MARKER @ map upper_char post"
      by simp
    then show "\<exists>pre post. map upper_char l = pre @ MARKER @ post" by blast
  qed
  also have "\<dots> \<longleftrightarrow> contains_ignoring_case ''procedure division using'' l"
    unfolding contains_ignoring_case_def equal_ignoring_case_def MARKER_upper
    by (simp only: map_upper_lower_eq)
  finally show ?thesis .
qed

lemma scan_lines_eq:
  "scan_lines t ls = (if \<exists>l\<in>set ls. py_in MARKER (upper l) then Subprogram else t)"
  by (induction ls) auto

lemma scan_lines_spec:
  "scan_lines t ls =
     (if \<exists>l\<in>set ls. contains_ignoring_case ''procedure division using'' l then Subprogram else t)"
  by (simp only: scan_lines_eq py_in_MARKER)

section \<open>File type detection\<close>

text \<open>
  Claim C1. A path whose suffix is not \<open>cbl\<close> is classified \<open>Text\<close>. A path with the
  suffix \<open>cbl\<close> whose file can be read is classified \<open>Subprogram\<close> if some line of
  the file contains "procedure division using" when compared case-insensitively, and
  \<open>Program\<close> otherwise; it is \<open>Program\<close> as well when reading fails with \<open>IOError\<close>.
\<close>

theorem detect_file_type_classifies:
  "(suffix filename \<noteq> ''cbl'' \<longrightarrow> fst (detect_file_type e filename) = Inr Text) \<and>
   (suffix filename = ''cbl'' \<longrightarrow>
      (\<forall>content. read_file e filename = Inr content \<longrightarrow>
         fst (detect_file_type e filename) =
           Inr (if \<exists>l\<in>set (readlines content).
                     contains_ignoring_case ''procedure division using'' l
                then Subprogram else Program)) \<and>
      (read_file e filename = Inl IOError \<longrightarrow>
         fst (detect_file_type e filename) = Inr Program))"
proof (intro conjI impI allI)
  assume "suffix filename \<noteq> ''cbl''"
  then show "fst (detect_file_type e filename) = Inr Text"
    by (simp add: detect_file_type_def)
next
  fix content
  assume "suffix filename = ''cbl''" and "read_file e filename = Inr content"
  then have "fst (detect_file_type e filename) = Inr (scan_lines Program (readlines content))"
    by (simp add: detect_file_type_def)
  then show "fst (detect_file_type e filename) =
      Inr (if \<exists>l\<in>set (readlines content).
                contains_ignoring_case ''procedure division using'' l
           then Subprogram else Program)"
    by (simp only: scan_lines_spec)
next
  assume "suffix filename = ''cbl''" and "read_file e filename = Inl IOError"
  then show "fst (detect_file_type e filename) = Inr Program"
    by (simp add: detect_file_type_def issubclass_def py_or_def)
qed

lemma suffix_sub: "suffix ''/home/u/sub.cbl'' = ''cbl''"
  by code_simp

lemma sub_has_marker:
  "\<exists>l\<in>set (readlines sub_cbl). contains_ignoring_case ''procedure division using'' l"
  unfolding py_in_MARKER [symmetric] by code_simp

text \<open>
  On \<open>sub.cbl\<close>, whose second line spells the marker in mixed case, the classification
  is \<open>Subprogram\<close>.
\<close>

theorem detect_file_type_classifies_witness:
  "suffix ''/home/u/sub.cbl'' = ''cbl'' \<and>
   read_file example_env ''/home/u/sub.cbl'' = Inr sub_cbl \<and>
   (\<exists>l\<in>set (readlines sub_cbl). contains_ignoring_case ''procedure division using'' l) \<and>
   fst (detect_file_type example_env ''/home/u/sub.cbl'') = Inr Subprogram"
proof -
  have r: "read_file example_env ''/home/u/sub.cbl'' = Inr sub_cbl"
    by (simp add: example_env_def example_files_def)
  from detect_file_type_classifies [of "''/home/u/sub.cbl''" example_env] suffix_sub r
  have "fst (detect_file_type example_env ''/home/u/sub.cbl'') =
      Inr (if \<exists>l\<in>set (readlines sub_cbl).
                contains_ignoring_case ''procedure division using'' l
           then Subprogram else Program)"
    by blast
  with sub_has_marker suffix_sub r show ?thesis by simp
qed

text \<open>
  Claim C10. The test of the suffix is case-sensitive: a path whose suffix is a variant
  of \<open>cbl\<close> that is not all lower case (\<open>CBL\<close>, \<open>Cbl\<close>) is classified \<open>Text\<close>,
  and no file is opened, whatever the file system holds.
\<close>

theorem detect_file_type_suffix_case_sensitive:
  "suffix filename \<noteq> ''cbl'' \<Longrightarrow> map lower_char (suffix filename) = ''cbl'' \<Longrightarrow>
   detect_file_type e filename = (Inr Text, [])"
  by (simp add: detect_file_type_def)

lemma suffix_SUB: "suffix ''/home/u/SUB.CBL'' = ''CBL''"
  by code_simp

lemma lower_CBL: "map lower_char ''CBL'' = ''cbl''"
  by code_simp

text \<open>
  \<open>SUB.CBL\<close> holds the marker and can be read, and still it is \<open>Text\<close> with nothing
  opened.
\<close>

theorem detect_file_type_suffix_case_sensitive_witness:
  "suffix ''/home/u/SUB.CBL'' = ''CBL'' \<and>
   map lower_char (suffix ''/home/u/SUB.CBL'') = ''cbl'' \<and>
   read_file example_env ''/home/u/SUB.CBL'' = Inr sub_cbl \<and>
   detect_file_type example_env ''/home/u/SUB.CBL'' = (Inr Text, [])"
proof -
  have a: "suffix ''/home/u/SUB.CBL'' \<noteq> ''cbl''" by (simp add: suffix_SUB)
  have b: "map lower_char (suffix ''/home/u/SUB.CBL'') = ''cbl''"
    by (simp only: suffix_SUB lower_CBL)
  have r: "read_file example_env ''/home/u/SUB.CBL'' = Inr sub_cbl"
    by (simp add: example_env_def example_files_def)
  from detect_file_type_suffix_case_sensitive [OF a b, of example_env] b r suffix_SUB
  show ?thesis by simp
qed

section \<open>Encoding detection\<close>

text \<open>
  Claim C7. \<open>detect_encoding\<close> never raises. When the file cannot be read, when
  chardet raises, or when chardet gives no name (\<open>None\<close> or the empty string), the
  result is the filesystem encoding of the platform; otherwise it is chardet's answer.
\<close>

theorem detect_encoding_never_raises:
  "(\<exists>encoding. detect_encoding e filename = Inr encoding) \<and>
   ((\<exists>exc. read_file e filename = Inl exc) \<longrightarrow>
      detect_encoding e filename = Inr (getfilesystemencoding e)) \<and>
   (\<forall>content. read_file e filename = Inr content \<longrightarrow>
      ((\<exists>exc. chardet_detect e content = Inl exc) \<longrightarrow>
         detect_encoding e filename = Inr (getfilesystemencoding e)) \<and>
      (chardet_detect e content = Inr None \<longrightarrow>
         detect_encoding e filename = Inr (getfilesystemencoding e)) \<and>
      (chardet_detect e content = Inr (Some []) \<longrightarrow>
         detect_encoding e filename = Inr (getfilesystemencoding e)) \<and>
      (\<forall>name. chardet_detect e content = Inr (Some name) \<and> name \<noteq> [] \<longrightarrow>
         detect_encoding e filename = Inr (Some name)))"
proof (intro conjI impI allI)
  show "\<exists>encoding. detect_encoding e filename = Inr encoding"
    by (simp add: detect_encoding_def split: sum.split)
next
  assume "\<exists>exc. read_file e filename = Inl exc"
  then show "detect_encoding e filename = Inr (getfilesystemencoding e)"
    by (auto simp: detect_encoding_def detect_encoding_try_def)
next
  fix content
  assume "read_file e filename = Inr content" and "\<exists>exc. chardet_detect e content = Inl exc"
  then show "detect_encoding e filename = Inr (getfilesystemencoding e)"
    by (auto simp: detect_encoding_def detect_encoding_try_def)
next
  fix content
  assume "read_file e filename = Inr content" and "chardet_detect e content = Inr None"
  then show "detect_encoding e filename = Inr (getfilesystemencoding e)"
    by (simp add: detect_encoding_def detect_encoding_try_def py_not_def)
next
  fix content
  assume "read_file e filename = Inr content" and "chardet_detect e content = Inr (Some [])"
  then show "detect_encoding e filename = Inr (getfilesystemencoding e)"
    by (simp add: detect_encoding_def detect_encoding_try_def py_not_def)
next
  fix content name
  assume "read_file e filename = Inr content"
    and "chardet_detect e content = Inr (Some name) \<and> name \<noteq> []"
  then show "detect_encoding e filename = Inr (Some name)"
    by (simp add: detect_encoding_def detect_encoding_try_def py_not_def)
qed

text \<open>
  An unreadable file gets the filesystem encoding, a readable one chardet's answer.
\<close>

theorem detect_encoding_never_raises_witness:
  "read_file example_env ''/home/u/locked.cbl'' = Inl IOError \<and>
   detect_encoding example_env ''/home/u/locked.cbl'' = Inr (Some ''UTF-8'') \<and>
   read_file example_env ''/home/u/notes.txt'' = Inr ''remember the milk'' \<and>
   chardet_detect example_env ''remember the milk'' = Inr (Some ''ascii'') \<and>
   detect_encoding example_env ''/home/u/notes.txt'' = Inr (Some ''ascii'')"
proof -
  have a: "read_file example_env ''/home/u/locked.cbl'' = Inl IOError"
    by (simp add: example_env_def example_files_def)
  have b: "read_file example_env ''/home/u/notes.txt'' = Inr ''remember the milk''"
    by (simp add: example_env_def example_files_def)
  have c: "chardet_detect example_env ''remember the milk'' = Inr (Some ''ascii'')"
    by (simp add: example_env_def example_chardet_def)
  have f: "getfilesystemencoding example_env = Some ''UTF-8''"
    by (simp add: example_env_def)
  from detect_encoding_never_raises [of example_env "''/home/u/locked.cbl''"] a
  have 1: "detect_encoding example_env ''/home/u/locked.cbl'' = Inr (Some ''UTF-8'')"
    unfolding f by blast
  from detect_encoding_never_raises [of example_env "''/home/u/notes.txt''"] b c
  have 2: "detect_encoding example_env ''/home/u/notes.txt'' = Inr (Some ''ascii'')"
    by blast
  from a b c 1 2 show ?thesis by simp
qed

section \<open>The toolbar\<close>

text \<open>Enabling the two save actions does not change which tab is active.\<close>

lemma same_active_tab:
  "active_tab_isinstance_CobolEditor
      (w\<lparr>actionSave_as_enabled := True, actionSave_enabled := True\<rparr>) =
   active_tab_isinstance_CobolEditor w"
  by (simp add: active_tab_isinstance_CobolEditor_def active_editor_def split: option.splits)

text \<open>The example windows, field by field.\<close>

lemma home_window_facts:
  "stackedWidget_currentIndex home_window = PAGE_HOME"
  "has_open_tabs (tab_mgr home_window) = False"
  "active_tab_type (tab_mgr home_window) = Text"
  "actionRun_enabled home_window = False"
  "message_boxes home_window = []"
  by code_simp+

lemma editing_window_facts:
  "fst (open_file example_env home_window ''/home/u/main.cbl'' None) = None"
  "stackedWidget_currentIndex editing_window = PAGE_EDITOR"
  "has_open_tabs (tab_mgr editing_window) = True"
  "active_tab_type (tab_mgr editing_window) = Program"
  "active_tab (tab_mgr editing_window) = Some 0"
  "active_tab_isinstance_CobolEditor editing_window = True"
  "actionRun_enabled editing_window = True"
  by code_simp+

lemma text_window_facts:
  "has_open_tabs (tab_mgr text_window) = True"
  "active_tab_type (tab_mgr text_window) = Text"
  "active_tab_isinstance_CobolEditor text_window = False"
  by code_simp+

lemma subprogram_window_facts:
  "has_open_tabs (tab_mgr subprogram_window) = True"
  "active_tab_type (tab_mgr subprogram_window) = Subprogram"
  "active_tab_isinstance_CobolEditor subprogram_window = True"
  by code_simp+

text \<open>
  Claim C2 says that after a refresh Run is disabled when the active tab is a
  subprogram and enabled in every other case. With a text file open, and with no
  file open, the classification is not \<open>Subprogram\<close> and yet Run is disabled after a
  refresh.
\<close>

theorem update_toolbar_run_counterexample:
  "active_tab_type (tab_mgr text_window) \<noteq> Subprogram \<and>
   \<not> actionRun_enabled (update_toolbar text_window) \<and>
   active_tab_type (tab_mgr home_window) \<noteq> Subprogram \<and>
   \<not> actionRun_enabled (update_toolbar home_window)"
  by code_simp

text \<open>
  Claim C2, amended. After every refresh of the toolbar, Run is enabled exactly when a
  tab is open, the active tab is a COBOL editor and its classification is not
  \<open>Subprogram\<close>. So Run is disabled whenever the classification is \<open>Subprogram\<close>, and
  also when no tab is open or the active tab is a plain text editor.
\<close>

theorem update_toolbar_run_enabled:
  "actionRun_enabled (update_toolbar w) =
     (has_open_tabs (tab_mgr w) \<and> active_tab_isinstance_CobolEditor w \<and>
      active_tab_type (tab_mgr w) \<noteq> Subprogram)"
  by (simp add: update_toolbar_def Let_def same_active_tab)

text \<open>The four example windows: only the one with a program open has Run enabled.\<close>

theorem update_toolbar_run_enabled_witness:
  "actionRun_enabled (update_toolbar editing_window) \<and>
   \<not> actionRun_enabled (update_toolbar subprogram_window) \<and>
   \<not> actionRun_enabled (update_toolbar text_window) \<and>
   \<not> actionRun_enabled (update_toolbar home_window)"
  unfolding update_toolbar_run_enabled
  by (simp add: editing_window_facts subprogram_window_facts text_window_facts home_window_facts)

section \<open>Running a program\<close>

text \<open>
  Claim C5 says that Run is disabled before the runner starts. With \<open>main.cbl\<close> open,
  Run is enabled, and it is still enabled when the handler returns with the runner
  handed to the pool; a second trigger goes through and the pool holds two runners.
\<close>

theorem on_actionRun_triggered_counterexample:
  "actionRun_enabled editing_window \<and>
   actionRun_enabled (on_actionRun_triggered editing_window) \<and>
   length (threadPool_started (on_actionRun_triggered editing_window)) = 1 \<and>
   actionRun_enabled (on_actionRun_triggered (on_actionRun_triggered editing_window)) \<and>
   length (threadPool_started (on_actionRun_triggered (on_actionRun_triggered editing_window))) = 2"
  by code_simp

text \<open>
  Claim C5, amended. The Run handler leaves the enabled state of the Run action as it
  was. It hands one runner to the pool, with the runner's \<open>finished\<close> notification
  connected to \<open>setEnabled\<close> of the Run action and nothing else: when that
  notification arrives, Run takes the truth value it carries, and the runner's other
  two notifications leave Run as it is.
\<close>

theorem on_actionRun_triggered_keeps_run_state:
  "actionRun_enabled (on_actionRun_triggered w) = actionRun_enabled w \<and>
   (\<exists>r. threadPool_started (on_actionRun_triggered w) = threadPool_started w @ [r] \<and>
        finished r = [ActionRun_setEnabled] \<and>
        (\<forall>b w'. actionRun_enabled (emit_finished r b w') = b) \<and>
        (\<forall>s w'. actionRun_enabled (emit_lineAvailable r s w') = actionRun_enabled w') \<and>
        (\<forall>s w'. actionRun_enabled (emit_error r s w') = actionRun_enabled w'))"
  by (simp add: on_actionRun_triggered_def Let_def emit_finished_def emit_lineAvailable_def
      emit_error_def on_run_error_def)

text \<open>
  With \<open>main.cbl\<close> open, Run stays enabled after the trigger, and a \<open>finished\<close>
  notification carrying false disables it.
\<close>

theorem on_actionRun_triggered_keeps_run_state_witness:
  "actionRun_enabled (on_actionRun_triggered editing_window) = True \<and>
   (\<exists>r. threadPool_started (on_actionRun_triggered editing_window) = [r] \<and>
        actionRun_enabled (emit_finished r False (on_actionRun_triggered editing_window)) = False)"
proof -
  have "threadPool_started editing_window = []" by code_simp
  with on_actionRun_triggered_keeps_run_state [of editing_window] editing_window_facts(7)
  show ?thesis by auto
qed

section \<open>Opening a file\<close>

text \<open>
  Claim C6. For the empty path and for a path that does not exist, \<open>_open_file\<close> does
  nothing: it raises nothing and the window, with its tabs, its page and every other
  field, is the one it was given.
\<close>

theorem open_file_missing_path_noop:
  "filename = [] \<or> \<not> path_exists e filename \<Longrightarrow> open_file e w filename filetype = (None, w)"
  by (auto simp: open_file_def)

text \<open>A missing file while \<open>main.cbl\<close> is open, and the empty path on the home page.\<close>

theorem open_file_missing_path_noop_witness:
  "\<not> path_exists example_env ''/home/u/missing.cbl'' \<and>
   open_file example_env editing_window ''/home/u/missing.cbl'' None = (None, editing_window) \<and>
   open_file example_env home_window [] (Some Program) = (None, home_window)"
proof -
  have a: "\<not> path_exists example_env ''/home/u/missing.cbl''" by code_simp
  from a have "''/home/u/missing.cbl'' = [] \<or> \<not> path_exists example_env ''/home/u/missing.cbl''"
    by (rule disjI2)
  from open_file_missing_path_noop [OF this]
  have 1: "open_file example_env editing_window ''/home/u/missing.cbl'' None = (None, editing_window)" .
  have "[] = ([] :: string) \<or> \<not> path_exists example_env []" by simp
  from open_file_missing_path_noop [OF this]
  have 2: "open_file example_env home_window [] (Some Program) = (None, home_window)" .
  from a 1 2 show ?thesis by simp
qed

section \<open>Double click on a diagnostic\<close>

text \<open>The first field of \<open>split\<close> is the text before the first separator.\<close>

lemma split_first_field: "\<exists>rest. split sep s = takeWhile (\<lambda>c. c \<noteq> sep) s # rest"
proof (induction s)
  case Nil
  then show ?case by simp
next
  case (Cons c cs)
  then obtain rest where "split sep cs = takeWhile (\<lambda>c. c \<noteq> sep) cs # rest" by blast
  then show ?case by simp
qed

text \<open>
  Claim C8. When the text before the first colon of the item parses as an integer
  \<open>n\<close>, that is when \<open>int\<close> returns \<open>n\<close> on it, the active editor's cursor becomes
  the cursor that \<open>cursorForPosition\<close> gives for line \<open>n\<close> and column 1, and nothing
  else changes; when it does not parse, that is when \<open>int\<close> raises \<open>ValueError\<close>, the
  click raises nothing and the window is unchanged. This holds whatever texts the
  interpreter's \<open>int\<close> accepts.
\<close>

theorem on_error_double_clicked_moves_cursor:
  "(\<forall>n r ed. builtin_int e (takeWhile (\<lambda>c. c \<noteq> COLON) text) = Some n \<and>
       active_tab (tab_mgr w) = Some r \<and> heap w r = Some ed \<longrightarrow>
       on_error_double_clicked e w text =
         (None, w\<lparr>heap := (heap w)(r \<mapsto> ed\<lparr>textCursor := cursorForPosition e ed n 1\<rparr>)\<rparr>)) \<and>
   (builtin_int e (takeWhile (\<lambda>c. c \<noteq> COLON) text) = None \<longrightarrow>
       on_error_double_clicked e w text = (None, w))"
proof -
  obtain rest where s: "split COLON text = takeWhile (\<lambda>c. c \<noteq> COLON) text # rest"
    using split_first_field [of COLON "text"] by blast
  show ?thesis
    by (simp add: on_error_double_clicked_def on_error_double_clicked_try_def s Let_def
        issubclass_def)
qed

text \<open>The three items of the examples, and the editor that is open.\<close>

lemma int_of_12:
  "builtin_int example_env (takeWhile (\<lambda>c. c \<noteq> COLON) (ascii_text ''12:Some error'')) = Some 12"
  by code_simp

lemma int_of_nbsp_12:
  "builtin_int example_env (takeWhile (\<lambda>c. c \<noteq> COLON) ([0xA0] @ ascii_text ''12:x'')) = Some 12"
  by code_simp

lemma int_of_Some:
  "builtin_int example_env (takeWhile (\<lambda>c. c \<noteq> COLON) (ascii_text ''Some error'')) = None"
  by code_simp

lemma editing_window_editor:
  "heap editing_window 0 =
     Some \<lparr>is_CobolEditor = True, fileType = Program,
           textCursor = \<lparr>cursor_line = 1, cursor_column = 0\<rparr>,
           errors_manager = Some (ErrorsManager 0),
           documentLayoutChanged = [Update_navigation_panel]\<rparr>"
  by code_simp

lemma example_cursor:
  "cursorForPosition example_env ed l c = \<lparr>cursor_line = l, cursor_column = c\<rparr>"
  by (simp add: example_env_def)

text \<open>
  "12:Some error" puts the cursor of the open editor on line 12, and so does "12:x"
  behind a no-break space; "Some error" changes nothing.
\<close>

theorem on_error_double_clicked_moves_cursor_witness:
  "builtin_int example_env (takeWhile (\<lambda>c. c \<noteq> COLON) (ascii_text ''12:Some error'')) = Some 12 \<and>
   map_option textCursor
     (active_editor (snd (on_error_double_clicked example_env editing_window
                            (ascii_text ''12:Some error'')))) =
     Some \<lparr>cursor_line = 12, cursor_column = 1\<rparr> \<and>
   builtin_int example_env (takeWhile (\<lambda>c. c \<noteq> COLON) ([0xA0] @ ascii_text ''12:x'')) = Some 12 \<and>
   map_option textCursor
     (active_editor (snd (on_error_double_clicked example_env editing_window
                            ([0xA0] @ ascii_text ''12:x'')))) =
     Some \<lparr>cursor_line = 12, cursor_column = 1\<rparr> \<and>
   builtin_int example_env (takeWhile (\<lambda>c. c \<noteq> COLON) (ascii_text ''Some error'')) = None \<and>
   on_error_double_clicked example_env editing_window (ascii_text ''Some error'') =
     (None, editing_window)"
proof -
  let ?ed = "\<lparr>is_CobolEditor = True, fileType = Program,
           textCursor = \<lparr>cursor_line = 1, cursor_column = 0\<rparr>,
           errors_manager = Some (ErrorsManager 0),
           documentLayoutChanged = [Update_navigation_panel]\<rparr>"
  let ?w = "editing_window\<lparr>heap := (heap editing_window)(0 \<mapsto>
              ?ed\<lparr>textCursor := cursorForPosition example_env ?ed 12 1\<rparr>)\<rparr>"
  from on_error_double_clicked_moves_cursor
         [of example_env "ascii_text ''12:Some error''" editing_window]
    int_of_12 editing_window_facts(5) editing_window_editor
  have 1: "on_error_double_clicked example_env editing_window (ascii_text ''12:Some error'') =
      (None, ?w)"
    by blast
  from on_error_double_clicked_moves_cursor
         [of example_env "[0xA0] @ ascii_text ''12:x''" editing_window]
    int_of_nbsp_12 editing_window_facts(5) editing_window_editor
  have 2: "on_error_double_clicked example_env editing_window ([0xA0] @ ascii_text ''12:x'') =
      (None, ?w)"
    by blast
  from on_error_double_clicked_moves_cursor
         [of example_env "ascii_text ''Some error''" editing_window]
    int_of_Some
  have 3: "on_error_double_clicked example_env editing_window (ascii_text ''Some error'') =
      (None, editing_window)"
    by blast
  have c: "map_option textCursor (active_editor ?w) = Some \<lparr>cursor_line = 12, cursor_column = 1\<rparr>"
    by (simp add: example_cursor active_editor_def editing_window_facts(5))
  have 4: "map_option textCursor
     (active_editor (snd (on_error_double_clicked example_env editing_window
                            (ascii_text ''12:Some error'')))) =
     Some \<lparr>cursor_line = 12, cursor_column = 1\<rparr>"
    unfolding 1 snd_conv by (rule c)
  have 5: "map_option textCursor
     (active_editor (snd (on_error_double_clicked example_env editing_window
                            ([0xA0] @ ascii_text ''12:x'')))) =
     Some \<lparr>cursor_line = 12, cursor_column = 1\<rparr>"
    unfolding 2 snd_conv by (rule c)
  from int_of_12 4 int_of_nbsp_12 5 int_of_Some 3 show ?thesis by blast
qed

section \<open>A file the tab manager cannot decode\<close>

text \<open>
  Claim C3 says that the editor page is visible exactly when a tab is open. On the
  home page, with no tab open, opening \<open>latin.cbl\<close> ends in a \<open>UnicodeDecodeError\<close> of
  \<open>open_tab\<close>; \<open>_open_file\<close> handles it, and afterwards the editor page is selected
  while still no tab is open.
\<close>

theorem open_file_decode_error_page:
  "stackedWidget_currentIndex home_window = PAGE_HOME \<and>
   \<not> has_open_tabs (tab_mgr home_window) \<and>
   path_exists example_env ''/home/u/latin.cbl'' \<and>
   open_tab example_env (tab_mgr home_window) ''/home/u/latin.cbl'' Program (Some ''ascii'') =
     Inl UnicodeDecodeError \<and>
   fst (open_file example_env home_window ''/home/u/latin.cbl'' None) = None \<and>
   stackedWidget_currentIndex failed_open_window = PAGE_EDITOR \<and>
   \<not> has_open_tabs (tab_mgr failed_open_window)"
  by code_simp

text \<open>
  Claim C4 says that a decode failure shows a dialog that names the file and leaves the
  application state unchanged. After the same attempt one message box has been shown;
  its text still holds the placeholder \<open>%s\<close> and not the name of the file, and the
  selected page is no longer the one before the attempt. The tab manager is as it was.
\<close>

theorem open_file_decode_error_dialog:
  "message_boxes home_window = [] \<and>
   message_boxes failed_open_window = [(''Bad encoding'', bad_encoding_text)] \<and>
   py_in ''%s'' bad_encoding_text \<and>
   \<not> py_in ''latin.cbl'' bad_encoding_text \<and>
   stackedWidget_currentIndex failed_open_window \<noteq> stackedWidget_currentIndex home_window \<and>
   tab_mgr failed_open_window = tab_mgr home_window"
  by code_simp

text \<open>
  The same holds for every file and every window: when the path exists, the type and
  the encoding are resolved and \<open>open_tab\<close> raises \<open>UnicodeDecodeError\<close>,
  \<open>_open_file\<close> raises nothing and returns the window with the editor page selected
  and one more message box, whose text does not depend on the file.
\<close>

theorem open_file_decode_error_any_file:
  assumes "filename \<noteq> []" and "path_exists e filename"
    and "fst (detect_file_type e (normpath e filename)) = Inr ft"
    and "detect_encoding e (normpath e filename) = Inr encoding"
    and "open_tab e (tab_mgr w) (normpath e filename) ft encoding = Inl UnicodeDecodeError"
  shows "open_file e w filename None =
     (None, w\<lparr>stackedWidget_currentIndex := PAGE_EDITOR,
              message_boxes := message_boxes w @ [(''Bad encoding'', bad_encoding_text)]\<rparr>)"
  using assms by (simp add: open_file_def open_file_try_def Let_def issubclass_def)

lemma latin_facts:
  "path_exists example_env ''/home/u/latin.cbl''"
  "fst (detect_file_type example_env (normpath example_env ''/home/u/latin.cbl'')) = Inr Program"
  "detect_encoding example_env (normpath example_env ''/home/u/latin.cbl'') = Inr (Some ''ascii'')"
  "open_tab example_env (tab_mgr home_window) (normpath example_env ''/home/u/latin.cbl'') Program
     (Some ''ascii'') = Inl UnicodeDecodeError"
  by code_simp+

text \<open>\<open>latin.cbl\<close> on the home page is such a file.\<close>

theorem open_file_decode_error_any_file_witness:
  "path_exists example_env ''/home/u/latin.cbl'' \<and>
   open_file example_env home_window ''/home/u/latin.cbl'' None =
     (None, home_window\<lparr>stackedWidget_currentIndex := PAGE_EDITOR,
              message_boxes := message_boxes home_window @ [(''Bad encoding'', bad_encoding_text)]\<rparr>)"
proof -
  have n: "''/home/u/latin.cbl'' \<noteq> []" by simp
  from open_file_decode_error_any_file [OF n latin_facts(1) latin_facts(2) latin_facts(3) latin_facts(4)]
    latin_facts(1)
  show ?thesis by simp
qed

end
